theory Spec2Isabelle
  imports Complex_Main "HOL-Library.Char_ord" "HOL-Library.List_Lexorder"
begin

section \<open>Python values shared by the notebooks\<close>

text \<open>
  The notebooks are straight-line Python cells.  An exception raised by a cell is a value
  of \<open>py_error\<close>; a run of cells stops at the first one.
\<close>

datatype py_error =
    AssertionError string
  | FileNotFoundError string
  | KeyError string
  | NameError string
  | TypeError
  | ValueError
  | ZeroDivisionError

section \<open>Loading the titanic table (01-Pandas.ipynb, lines 47 to 60)\<close>

text \<open>
  The file system is a partial map from paths to file contents, together with the list of
  paths that have been opened for reading so far.  \<open>Path.exists\<close> only looks at the map.
\<close>

type_synonym path = string

record world =
  files :: "path \<rightharpoonup> string"
  opened :: "path list"

definition path_exists :: "world \<Rightarrow> path \<Rightarrow> bool" where
  "path_exists w p \<longleftrightarrow> files w p \<noteq> None"

text \<open>
  \<open>pd.read_csv(path)\<close>: the library opens the path (which is recorded), fails with
  \<open>FileNotFoundError\<close> when there is no such file and otherwise hands the text to its
  parser.  The parser is a parameter: it returns the frame or the parser's error.
\<close>

definition read_csv ::
  "(string \<Rightarrow> py_error + 'df) \<Rightarrow> path \<Rightarrow> world \<Rightarrow> (py_error + 'df) \<times> world" where
  "read_csv parse p w =
     (let w' = w\<lparr>opened := opened w @ [p]\<rparr>
      in case files w p of
           None \<Rightarrow> (Inl (FileNotFoundError p), w')
         | Some txt \<Rightarrow> (parse txt, w'))"

text \<open>
  The cell at lines 47 and 48:
  \<^verbatim>\<open>file_path = Path("./data/tabular/titanic.csv")\<close>
  \<^verbatim>\<open>assert file_path.exists(), "The data file does not exist!"\<close>
\<close>

definition cell_check_exists :: "path \<Rightarrow> world \<Rightarrow> (py_error + unit) \<times> world" where
  "cell_check_exists file_path w =
     (if path_exists w file_path then (Inr (), w)
      else (Inl (AssertionError ''The data file does not exist!''), w))"

text \<open>The next cell, line 60: \<^verbatim>\<open>df = pd.read_csv(file_path)\<close>\<close>

definition cell_read :: "(string \<Rightarrow> py_error + 'df) \<Rightarrow> path \<Rightarrow> world \<Rightarrow> (py_error + 'df) \<times> world" where
  "cell_read parse file_path w = read_csv parse file_path w"

text \<open>The load: the first cell, then the second unless the first raised.\<close>

definition load :: "(string \<Rightarrow> py_error + 'df) \<Rightarrow> path \<Rightarrow> world \<Rightarrow> (py_error + 'df) \<times> world" where
  "load parse file_path w =
     (case cell_check_exists file_path w of
        (Inl e, w') \<Rightarrow> (Inl e, w')
      | (Inr _, w') \<Rightarrow> cell_read parse file_path w')"

section \<open>Tabular frames (01-Pandas.ipynb)\<close>

text \<open>
  A column read from a CSV file is either an object column (Python strings) or a numeric
  column; a missing entry (\<open>NaN\<close>) is \<open>None\<close>.  Numbers are exact rationals: rounding of
  floating-point arithmetic is not part of the model of a frame (the arithmetic of the
  reductions on machine numbers is modelled on its own further down).  A frame is its row
  labels and its named columns, in order.
\<close>

datatype column = Object "string option list" | Numeric "rat option list"

record dataframe =
  index :: "nat list"
  columns :: "(string \<times> column) list"

text \<open>\<^verbatim>\<open>df[name]\<close>\<close>

definition getitem :: "dataframe \<Rightarrow> string \<Rightarrow> py_error + column" where
  "getitem df name =
     (case map_of (columns df) name of
        None \<Rightarrow> Inl (KeyError name)
      | Some col \<Rightarrow> Inr col)"

subsection \<open>Boolean indexing (lines 1043 to 1056)\<close>

text \<open>
  \<^verbatim>\<open>df["Fare"] > 50\<close>: element-wise comparison of a numeric column with a number; a missing
  entry compares false.  Comparing an object column with a number raises \<open>TypeError\<close>.
\<close>

definition series_gt :: "column \<Rightarrow> rat \<Rightarrow> py_error + bool list" where
  "series_gt col c =
     (case col of
        Object _ \<Rightarrow> Inl TypeError
      | Numeric vs \<Rightarrow> Inr (map (\<lambda>v. case v of None \<Rightarrow> False | Some x \<Rightarrow> x > c) vs))"

definition select_rows :: "bool list \<Rightarrow> 'a list \<Rightarrow> 'a list" where
  "select_rows msk xs = map snd (filter fst (zip msk xs))"

definition select_column :: "bool list \<Rightarrow> column \<Rightarrow> column" where
  "select_column msk col =
     (case col of
        Object vs \<Rightarrow> Object (select_rows msk vs)
      | Numeric vs \<Rightarrow> Numeric (select_rows msk vs))"

text \<open>
  \<^verbatim>\<open>df[mask]\<close>: a frame holding the rows whose mask entry is true.  The mask must have one
  entry per row.
\<close>

definition getitem_mask :: "dataframe \<Rightarrow> bool list \<Rightarrow> py_error + dataframe" where
  "getitem_mask df msk =
     (if length msk \<noteq> length (index df) then Inl ValueError
      else Inr \<lparr>index = select_rows msk (index df),
                columns = map (\<lambda>(name, col). (name, select_column msk col)) (columns df)\<rparr>)"

subsection \<open>Group by (lines 108 and 1155 to 1201)\<close>

text \<open>
  Modelled from the spec: the table library's group-by (\<open>DataFrame.groupby\<close>, the column
  selection on it and the reductions \<open>mean\<close> and \<open>aggregate\<close>) is not among the
  repository's files; only the cells that call it are.  The specification describes it as
  "partition rows by one or more key columns, apply a reduction (mean, sum, count) per
  partition, and return one row per distinct key combination, in key-sort or first-seen
  order".  The notebook spells the same operation out at lines 1155 and 1156,
  \<^verbatim>\<open>for k in list("ABC"): print(k, df[df["key"] == k]["data"].sum())\<close>
  and at line 1175 calls it split-apply-combine: split the rows by the unique values of the
  key, apply the function to each group, combine the results.  The model follows these
  steps.  The unique keys are collected in order of first appearance, rows with a missing
  key belong to no group, and the keys are then sorted.
\<close>

fun uniques :: "'k list \<Rightarrow> 'k option list \<Rightarrow> 'k list" where
  "uniques seen [] = seen"
| "uniques seen (None # ks) = uniques seen ks"
| "uniques seen (Some k # ks) =
     (if k \<in> set seen then uniques seen ks else uniques (seen @ [k]) ks)"

definition group_keys :: "('k::linorder) option list \<Rightarrow> 'k list" where
  "group_keys ks = sort (uniques [] ks)"

text \<open>The group of key \<open>k\<close>: \<^verbatim>\<open>df[df[key] == k][val]\<close>.\<close>

definition get_group :: "'k option list \<Rightarrow> 'v list \<Rightarrow> 'k \<Rightarrow> 'v list" where
  "get_group ks vs k = select_rows (map (\<lambda>k'. k' = Some k) ks) vs"

text \<open>\<^verbatim>\<open>.aggregate(f)\<close>: one row per group key, holding \<open>f\<close> of the group.\<close>

definition aggregate ::
  "(rat option list \<Rightarrow> 'r) \<Rightarrow> ('k::linorder) option list \<Rightarrow> rat option list \<Rightarrow> ('k \<times> 'r) list" where
  "aggregate f ks vs = map (\<lambda>k. (k, f (get_group ks vs k))) (group_keys ks)"

text \<open>
  Reductions of a numeric series.  \<open>sum\<close> and \<open>mean\<close> skip missing entries; \<open>len\<close> counts
  every entry; the mean of no entries is missing.
\<close>

definition series_sum :: "rat option list \<Rightarrow> rat" where
  "series_sum vs = sum_list (concat (map (\<lambda>v. case v of None \<Rightarrow> [] | Some x \<Rightarrow> [x]) vs))"

definition series_count :: "rat option list \<Rightarrow> nat" where
  "series_count vs = length (filter (\<lambda>v. v \<noteq> None) vs)"

definition series_mean :: "rat option list \<Rightarrow> rat option" where
  "series_mean vs =
     (if series_count vs = 0 then None
      else Some (series_sum vs / of_nat (series_count vs)))"

text \<open>
  The result of a grouped reduction is a series labelled by the group keys, which are
  strings or numbers according to the key column.
\<close>

datatype series =
    StrIndexed "(string \<times> rat option) list"
  | NumIndexed "(rat \<times> rat option) list"

text \<open>
  \<^verbatim>\<open>df.groupby(key)[val].aggregate(f)\<close> on a frame; \<^verbatim>\<open>.mean()\<close> is the same with the
  built-in reduction \<open>series_mean\<close>.  Both columns must exist, and the reductions here
  are defined on numbers only.
\<close>

definition df_groupby_aggregate ::
  "(rat option list \<Rightarrow> rat option) \<Rightarrow> dataframe \<Rightarrow> string \<Rightarrow> string \<Rightarrow> py_error + series" where
  "df_groupby_aggregate f df key val =
     (case getitem df key of
        Inl e \<Rightarrow> Inl e
      | Inr kcol \<Rightarrow>
          (case getitem df val of
             Inl e \<Rightarrow> Inl e
           | Inr (Object _) \<Rightarrow> Inl TypeError
           | Inr (Numeric vs) \<Rightarrow>
               (case kcol of
                  Object ks \<Rightarrow> Inr (StrIndexed (aggregate f ks vs))
                | Numeric ks \<Rightarrow> Inr (NumIndexed (aggregate f ks vs)))))"

text \<open>Line 108: \<^verbatim>\<open>df.groupby("Sex")["Survived"].mean()\<close>\<close>

definition survival_by_sex :: "dataframe \<Rightarrow> py_error + series" where
  "survival_by_sex df = df_groupby_aggregate series_mean df ''Sex'' ''Survived''"

subsection \<open>The two reductions on machine numbers (lines 108 and 120)\<close>

text \<open>
  Whether the built-in mean of line 108 and the quotient written out at line 120 return the
  same numbers depends on the arithmetic of the table and array libraries, so this part of
  the model keeps the numbers as the libraries store them.  A numeric column is either a
  column of 64-bit signed integers, which has no missing entry, or a column of 64-bit
  floats, where a missing entry is NaN (\<open>None\<close> here).  Integer values are kept as
  integers and every integer result is wrapped to 64 bits.
\<close>

datatype 'f numbers = Int64 "int list" | Float64 "'f option list"

definition wrap64 :: "int \<Rightarrow> int" where
  "wrap64 x = (x + 2 ^ 63) mod 2 ^ 64 - 2 ^ 63"

text \<open>
  Floating-point arithmetic is a parameter: the conversion of an integer to a float,
  addition, subtraction, division, the test for NaN, and the array library's sum of an
  array of floats.
\<close>

record 'f float_ops =
  of_int64 :: "int \<Rightarrow> 'f"
  f_add :: "'f \<Rightarrow> 'f \<Rightarrow> 'f"
  f_sub :: "'f \<Rightarrow> 'f \<Rightarrow> 'f"
  f_div :: "'f \<Rightarrow> 'f \<Rightarrow> 'f"
  f_isnan :: "'f \<Rightarrow> bool"
  f_sum :: "'f list \<Rightarrow> 'f"

text \<open>
  What the comparison below needs of these operations: the sum and the difference of two
  integers are exact when the operands and the result have magnitude at most \<open>2 ^ 53\<close>,
  and the conversion of an integer is not NaN.  Binary floating point with a 53-bit
  significand has this property, since every such integer is represented exactly.
\<close>

definition exact_on_integers :: "'f float_ops \<Rightarrow> bool" where
  "exact_on_integers ops \<longleftrightarrow>
     (\<forall>a b. \<bar>a\<bar> \<le> 2 ^ 53 \<and> \<bar>b\<bar> \<le> 2 ^ 53 \<and> \<bar>a + b\<bar> \<le> 2 ^ 53 \<longrightarrow>
        f_add ops (of_int64 ops a) (of_int64 ops b) = of_int64 ops (a + b))
   \<and> (\<forall>a b. \<bar>a\<bar> \<le> 2 ^ 53 \<and> \<bar>b\<bar> \<le> 2 ^ 53 \<and> \<bar>a - b\<bar> \<le> 2 ^ 53 \<longrightarrow>
        f_sub ops (of_int64 ops a) (of_int64 ops b) = of_int64 ops (a - b))
   \<and> (\<forall>a. \<not> f_isnan ops (of_int64 ops a))"

text \<open>
  The grouped mean adds the entries of a group in row order with a compensated sum,
  \<^verbatim>\<open>y = val - compensation; t = sumx + y; compensation = t - sumx - y; sumx = t\<close>,
  where a compensation that is NaN is reset to zero.
\<close>

fun kahan_sum :: "'f float_ops \<Rightarrow> 'f \<Rightarrow> 'f \<Rightarrow> 'f list \<Rightarrow> 'f" where
  "kahan_sum ops sumx compensation [] = sumx"
| "kahan_sum ops sumx compensation (val # vals) =
     (let y = f_sub ops val compensation;
          t = f_add ops sumx y;
          c = f_sub ops (f_sub ops t sumx) y
      in kahan_sum ops t (if f_isnan ops c then of_int64 ops 0 else c) vals)"

fun present :: "'a option list \<Rightarrow> 'a list" where
  "present [] = []"
| "present (None # vs) = present vs"
| "present (Some x # vs) = x # present vs"

text \<open>
  The mean of a group of floats skips the missing entries and divides the sum by the number
  of entries present; with none present it is NaN.
\<close>

definition group_mean :: "'f float_ops \<Rightarrow> 'f option list \<Rightarrow> 'f option" where
  "group_mean ops grp =
     (let nobs = length (present grp);
          sumx = kahan_sum ops (of_int64 ops 0) (of_int64 ops 0) (present grp)
      in if nobs = 0 then None else Some (f_div ops sumx (of_int64 ops (int nobs))))"

text \<open>\<^verbatim>\<open>.mean()\<close> on a group of the column: integers are converted to floats first.\<close>

definition builtin_mean :: "'f float_ops \<Rightarrow> 'f numbers \<Rightarrow> 'f option" where
  "builtin_mean ops grp =
     (case grp of
        Int64 vs \<Rightarrow> group_mean ops (map (\<lambda>v. Some (of_int64 ops v)) vs)
      | Float64 vs \<Rightarrow> group_mean ops vs)"

text \<open>
  Line 120: \<^verbatim>\<open>lambda grp: grp.sum() / len(grp)\<close>.  On a group of integers the sum is
  a 64-bit integer sum, which wraps; on a group of floats the missing entries count as zero
  and the array is added up.  \<open>len\<close> counts every entry, and the quotient converts both
  operands to floats.
\<close>

definition sum_over_len :: "'f float_ops \<Rightarrow> 'f numbers \<Rightarrow> 'f option" where
  "sum_over_len ops grp =
     (case grp of
        Int64 vs \<Rightarrow>
          Some (f_div ops (of_int64 ops (wrap64 (sum_list vs))) (of_int64 ops (int (length vs))))
      | Float64 vs \<Rightarrow>
          Some (f_div ops
                  (f_sum ops (map (\<lambda>v. case v of None \<Rightarrow> of_int64 ops 0 | Some x \<Rightarrow> x) vs))
                  (of_int64 ops (int (length vs)))))"

text \<open>The rows of a column selected by a mask, and one reduced value per group key.\<close>

definition select_numbers :: "bool list \<Rightarrow> 'f numbers \<Rightarrow> 'f numbers" where
  "select_numbers msk col =
     (case col of
        Int64 vs \<Rightarrow> Int64 (select_rows msk vs)
      | Float64 vs \<Rightarrow> Float64 (select_rows msk vs))"

definition reduce_by_key ::
  "('f numbers \<Rightarrow> 'r) \<Rightarrow> ('k::linorder) option list \<Rightarrow> 'f numbers \<Rightarrow> ('k \<times> 'r) list" where
  "reduce_by_key f ks col =
     map (\<lambda>k. (k, f (select_numbers (map (\<lambda>k'. k' = Some k) ks) col))) (group_keys ks)"

text \<open>
  Line 108, \<^verbatim>\<open>df.groupby("Sex")["Survived"].mean()\<close>, and line 120,
  \<^verbatim>\<open>df.groupby("Sex")["Survived"].aggregate(lambda grp: grp.sum() / len(grp))\<close>, as
  functions of the two columns \<^verbatim>\<open>df["Sex"]\<close> and \<^verbatim>\<open>df["Survived"]\<close>.  The result is
  the list of its rows: the group keys in order, each with its value.
\<close>

definition survived_mean ::
  "'f float_ops \<Rightarrow> string option list \<Rightarrow> 'f numbers \<Rightarrow> (string \<times> 'f option) list" where
  "survived_mean ops sex survived = reduce_by_key (builtin_mean ops) sex survived"

definition survived_sum_over_len ::
  "'f float_ops \<Rightarrow> string option list \<Rightarrow> 'f numbers \<Rightarrow> (string \<times> 'f option) list" where
  "survived_sum_over_len ops sex survived = reduce_by_key (sum_over_len ops) sex survived"

section \<open>Objects and names of a notebook session\<close>

text \<open>
  Python variables hold references to objects.  A session is the store of objects, the
  binding of names to references and the next unused reference.
\<close>

type_synonym ref = nat

type_synonym coord = "rat \<times> rat"

text \<open>
  A geometric frame: a table, one geometry per row (the coordinates of its vertices) and
  the EPSG code of the declared CRS, if one is declared.
\<close>

record geodataframe =
  attributes :: dataframe
  geometry :: "coord list list"
  crs :: "int option"

datatype pyobj =
    DataFrame dataframe
  | GeoDataFrame geodataframe
  | Series series
  | BoolSeries "bool list"

record session =
  heap :: "ref \<rightharpoonup> pyobj"
  names :: "string \<rightharpoonup> ref"
  next_ref :: ref

definition wf_session :: "session \<Rightarrow> bool" where
  "wf_session s \<longleftrightarrow> (\<forall>r. heap s r \<noteq> None \<longrightarrow> r < next_ref s)"

definition new_object :: "pyobj \<Rightarrow> session \<Rightarrow> ref \<times> session" where
  "new_object v s =
     (next_ref s, s\<lparr>heap := (heap s)(next_ref s \<mapsto> v), next_ref := Suc (next_ref s)\<rparr>)"

definition assign :: "string \<Rightarrow> ref \<Rightarrow> session \<Rightarrow> session" where
  "assign name r s = s\<lparr>names := (names s)(name \<mapsto> r)\<rparr>"

definition lookup :: "session \<Rightarrow> string \<Rightarrow> py_error + pyobj" where
  "lookup s name =
     (case names s name of
        None \<Rightarrow> Inl (NameError name)
      | Some r \<Rightarrow> (case heap s r of None \<Rightarrow> Inl (NameError name) | Some v \<Rightarrow> Inr v))"

text \<open>
  \<^verbatim>\<open>gdf.to_crs(epsg=code)\<close> with the default \<^verbatim>\<open>inplace=False\<close>: the result is a frame with
  every coordinate passed through the transformer from the declared CRS to the target and
  the target declared as its CRS; a frame without a CRS cannot be transformed.  The
  coordinate transformer (source code, target code, coordinate) is a parameter.
\<close>

definition to_crs ::
  "(int \<Rightarrow> int \<Rightarrow> coord \<Rightarrow> coord) \<Rightarrow> geodataframe \<Rightarrow> int \<Rightarrow> py_error + geodataframe" where
  "to_crs transformer gdf epsg =
     (case crs gdf of
        None \<Rightarrow> Inl ValueError
      | Some src \<Rightarrow>
          Inr (gdf\<lparr>geometry := map (map (transformer src epsg)) (geometry gdf),
                   crs := Some epsg\<rparr>))"

text \<open>
  The cells below evaluate a method of the object a name refers to.  A method call creates
  its result as a new object; an assignment statement binds a name to it; an expression
  statement leaves it as the cell's output.  The notebooks bind these names to frames only;
  for an object of another kind the model raises \<open>TypeError\<close>.
\<close>

text \<open>
  01-Pandas.ipynb, lines 1055 and 1056:
  \<^verbatim>\<open>mask = df["Fare"] > 50\<close>
  \<^verbatim>\<open>df[mask]\<close>
\<close>

definition cell_filter :: "session \<Rightarrow> py_error + ref \<times> session" where
  "cell_filter s =
     (case lookup s ''df'' of
        Inl e \<Rightarrow> Inl e
      | Inr (DataFrame df) \<Rightarrow>
          (case getitem df ''Fare'' of
             Inl e \<Rightarrow> Inl e
           | Inr fare \<Rightarrow>
               (case series_gt fare 50 of
                  Inl e \<Rightarrow> Inl e
                | Inr msk \<Rightarrow>
                    (let (r, s1) = new_object (BoolSeries msk) s;
                         s2 = assign ''mask'' r s1
                     in case getitem_mask df msk of
                          Inl e \<Rightarrow> Inl e
                        | Inr out \<Rightarrow> Inr (new_object (DataFrame out) s2))))
      | Inr _ \<Rightarrow> Inl TypeError)"

text \<open>01-Pandas.ipynb, line 108: \<^verbatim>\<open>df.groupby("Sex")["Survived"].mean()\<close>\<close>

definition cell_aggregate :: "session \<Rightarrow> py_error + ref \<times> session" where
  "cell_aggregate s =
     (case lookup s ''df'' of
        Inl e \<Rightarrow> Inl e
      | Inr (DataFrame df) \<Rightarrow>
          (case survival_by_sex df of
             Inl e \<Rightarrow> Inl e
           | Inr out \<Rightarrow> Inr (new_object (Series out) s))
      | Inr _ \<Rightarrow> Inl TypeError)"

text \<open>
  04-GeoPandas.ipynb, line 734:
  \<^verbatim>\<open>gdf_paris_districts_mercator = gdf_paris_districts.to_crs(epsg=3857)\<close>
\<close>

definition cell_reproject ::
  "(int \<Rightarrow> int \<Rightarrow> coord \<Rightarrow> coord) \<Rightarrow> session \<Rightarrow> py_error + ref \<times> session" where
  "cell_reproject transformer s =
     (case lookup s ''gdf_paris_districts'' of
        Inl e \<Rightarrow> Inl e
      | Inr (GeoDataFrame gdf) \<Rightarrow>
          (case to_crs transformer gdf 3857 of
             Inl e \<Rightarrow> Inl e
           | Inr out \<Rightarrow>
               (let (r, s1) = new_object (GeoDataFrame out) s
                in Inr (r, assign ''gdf_paris_districts_mercator'' r s1)))
      | Inr _ \<Rightarrow> Inl TypeError)"

text \<open>
  What it means for a cell to leave the objects of a session alone: every object that
  existed before is still there, unchanged.
\<close>

definition unchanged :: "session \<Rightarrow> session \<Rightarrow> bool" where
  "unchanged s s' \<longleftrightarrow> (\<forall>r v. heap s r = Some v \<longrightarrow> heap s' r = Some v)"

section \<open>Raster resampling\<close>

datatype Resampling = nearest | bilinear | cubic

text \<open>Python's \<^verbatim>\<open>//\<close> on integers: floor division, an error on a zero divisor.\<close>

definition py_floordiv :: "int \<Rightarrow> int \<Rightarrow> py_error + int" where
  "py_floordiv a b = (if b = 0 then Inl ZeroDivisionError else Inr (a div b))"

subsection \<open>Reading at a lower resolution (Rasterio notebook, 01-Pandas.ipynb lines 2317 to 2324)\<close>

text \<open>An open raster dataset, as far as the cell reads it, and the array a read returns.\<close>

record dataset_reader =
  ds_count :: int
  ds_height :: int
  ds_width :: int

record ndarray =
  shape :: "int \<times> int"
  elems :: "rat list"

text \<open>
  \<^verbatim>\<open>resampled_elevation_data = src.read(1,\<close>
  \<^verbatim>\<open>    out_shape=(src.height // resampling_factor, src.width // resampling_factor),\<close>
  \<^verbatim>\<open>    resampling=Resampling.bilinear)\<close>
  The dataset's \<open>read\<close> method belongs to the raster library and is a parameter: band
  number, requested shape and interpolation policy in, array out.
\<close>

definition resample ::
  "(dataset_reader \<Rightarrow> int \<Rightarrow> int \<times> int \<Rightarrow> Resampling \<Rightarrow> ndarray) \<Rightarrow> int \<Rightarrow> dataset_reader
     \<Rightarrow> py_error + ndarray" where
  "resample read resampling_factor src =
     (case py_floordiv (ds_height src) resampling_factor of
        Inl e \<Rightarrow> Inl e
      | Inr h \<Rightarrow>
          (case py_floordiv (ds_width src) resampling_factor of
             Inl e \<Rightarrow> Inl e
           | Inr w \<Rightarrow> Inr (read src 1 (h, w) bilinear)))"

subsection \<open>Resampling a labelled array (06-XArray.ipynb, lines 1288 to 1299)\<close>

text \<open>A raster opened through the \<open>rio\<close> accessor: its declared CRS, its size, its values.\<close>

record 'crs data_array =
  rio_crs :: 'crs
  rio_height :: int
  rio_width :: int
  da_values :: "rat list"

text \<open>
  \<^verbatim>\<open>new_width = ds.rio.width * upscale_factor\<close>
  \<^verbatim>\<open>new_height = ds.rio.height * upscale_factor\<close>
  \<^verbatim>\<open>resampled_ds = ds.rio.reproject(ds.rio.crs, shape=(new_height, new_width),\<close>
  \<^verbatim>\<open>                                resampling=Resampling.bilinear)\<close>
  The accessor's \<open>reproject\<close> belongs to the library and is a parameter: the array, the
  destination CRS, the destination shape and the interpolation policy in, the new array
  out.
\<close>

definition resample_ds ::
  "('crs data_array \<Rightarrow> 'crs \<Rightarrow> int \<times> int \<Rightarrow> Resampling \<Rightarrow> 'crs data_array) \<Rightarrow> int
     \<Rightarrow> 'crs data_array \<Rightarrow> 'crs data_array" where
  "resample_ds reproject upscale_factor ds =
     (let new_width = rio_width ds * upscale_factor;
          new_height = rio_height ds * upscale_factor
      in reproject ds (rio_crs ds) (new_height, new_width) bilinear)"

section \<open>Example data\<close>

text \<open>The first three passengers of the titanic table, with four of its columns.\<close>

definition titanic_head :: dataframe where
  "titanic_head =
     \<lparr>index = [0, 1, 2],
      columns = [(''Survived'', Numeric [Some 0, Some 1, Some 1]),
                 (''Sex'', Object [Some ''male'', Some ''female'', Some ''female'']),
                 (''Age'', Numeric [Some 22, Some 38, Some 26]),
                 (''Fare'', Numeric [Some (29 / 4), Some (712833 / 10000), Some (317 / 40)])]\<rparr>"

text \<open>One district as a square in UTM zone 31N.\<close>

definition paris_district :: geodataframe where
  "paris_district =
     \<lparr>attributes = \<lparr>index = [0], columns = [(''population'', Numeric [Some 1672])]\<rparr>,
      geometry = [[(0, 0), (0, 100), (100, 100), (100, 0), (0, 0)]],
      crs = Some 32631\<rparr>"

text \<open>A session in which both frames have been loaded.\<close>

definition session0 :: session where
  "session0 =
     \<lparr>heap = [0 \<mapsto> DataFrame titanic_head, 1 \<mapsto> GeoDataFrame paris_district],
      names = [''df'' \<mapsto> 0, ''gdf_paris_districts'' \<mapsto> 1],
      next_ref = 2\<rparr>"

text \<open>The rows of \<open>titanic_head\<close> with a fare above 50.\<close>

definition titanic_fare_over_50 :: dataframe where
  "titanic_fare_over_50 =
     \<lparr>index = [1],
      columns = [(''Survived'', Numeric [Some 1]),
                 (''Sex'', Object [Some ''female'']),
                 (''Age'', Numeric [Some 38]),
                 (''Fare'', Numeric [Some (712833 / 10000)])]\<rparr>"

text \<open>\<open>session0\<close> after the filter cell has run in it.\<close>

definition session0_filtered :: session where
  "session0_filtered =
     \<lparr>heap = [0 \<mapsto> DataFrame titanic_head,
              1 \<mapsto> GeoDataFrame paris_district,
              2 \<mapsto> BoolSeries [False, True, False],
              3 \<mapsto> DataFrame titanic_fare_over_50],
      names = [''df'' \<mapsto> 0, ''gdf_paris_districts'' \<mapsto> 1, ''mask'' \<mapsto> 2],
      next_ref = 4\<rparr>"

text \<open>
  A stand-in for the projection library's transformer in the examples: it doubles both
  coordinates.
\<close>

definition doubling :: "int \<Rightarrow> int \<Rightarrow> coord \<Rightarrow> coord" where
  "doubling src dst c = (2 * fst c, 2 * snd c)"

text \<open>
  Exact arithmetic on rationals in place of the floating-point operations.  It agrees with
  binary floating point wherever every operand and result is a number that is represented
  exactly, as in the examples below.
\<close>

definition exact_ops :: "rat float_ops" where
  "exact_ops =
     \<lparr>of_int64 = rat_of_int, f_add = (+), f_sub = (-), f_div = (/),
      f_isnan = (\<lambda>x. False), f_sum = sum_list\<rparr>"

section \<open>Properties of the load\<close>

text \<open>
  C7.  For every file path: when the path does not exist the load fails with the existence
  check's error (the assertion failure "The data file does not exist!") and nothing has been
  opened for reading; the file is opened, and a frame can be returned, only when the path
  exists, and then the load is the library's read of the file.
\<close>

theorem load_checks_existence:
  "(\<not> path_exists w p \<longrightarrow>
      load parse p w = (Inl (AssertionError ''The data file does not exist!''), w))
   \<and> (opened (snd (load parse p w)) \<noteq> opened w \<longrightarrow> path_exists w p)
   \<and> (\<forall>df. fst (load parse p w) = Inr df \<longrightarrow> path_exists w p)
   \<and> (path_exists w p \<longrightarrow> load parse p w = read_csv parse p w)"
  by (auto simp: load_def cell_check_exists_def cell_read_def read_csv_def path_exists_def Let_def
           split: option.splits)

theorem load_checks_existence_witness:
  "load (\<lambda>txt. Inr txt) ''./data/tabular/titanic.csv'' \<lparr>files = Map.empty, opened = []\<rparr>
     = (Inl (AssertionError ''The data file does not exist!''), \<lparr>files = Map.empty, opened = []\<rparr>)
   \<and> fst (load (\<lambda>txt. Inr txt) ''./data/tabular/titanic.csv''
          \<lparr>files = [''./data/tabular/titanic.csv'' \<mapsto> ''Survived,Sex''], opened = []\<rparr>)
       = Inr ''Survived,Sex''
   \<and> opened (snd (load (\<lambda>txt. Inr txt) ''./data/tabular/titanic.csv''
          \<lparr>files = [''./data/tabular/titanic.csv'' \<mapsto> ''Survived,Sex''], opened = []\<rparr>))
       = [''./data/tabular/titanic.csv'']
   \<and> path_exists \<lparr>files = [''./data/tabular/titanic.csv'' \<mapsto> ''Survived,Sex''], opened = []\<rparr>
         ''./data/tabular/titanic.csv''
   \<and> load (\<lambda>txt. Inr txt) ''./data/tabular/titanic.csv''
          \<lparr>files = [''./data/tabular/titanic.csv'' \<mapsto> ''Survived,Sex''], opened = []\<rparr>
       = read_csv (\<lambda>txt. Inr txt) ''./data/tabular/titanic.csv''
          \<lparr>files = [''./data/tabular/titanic.csv'' \<mapsto> ''Survived,Sex''], opened = []\<rparr>"
proof -
  let ?p = "''./data/tabular/titanic.csv''"
  let ?parse = "\<lambda>txt :: string. (Inr txt :: py_error + string)"
  let ?w0 = "\<lparr>files = Map.empty, opened = []\<rparr>"
  let ?w1 = "\<lparr>files = [?p \<mapsto> ''Survived,Sex''], opened = []\<rparr>"
  have missing: "\<not> path_exists ?w0 ?p"
    by (simp add: path_exists_def)
  have loaded: "fst (load ?parse ?p ?w1) = Inr ''Survived,Sex''"
    by (simp add: load_def cell_check_exists_def cell_read_def read_csv_def path_exists_def)
  have log: "opened (snd (load ?parse ?p ?w1)) = [?p]"
    by (simp add: load_def cell_check_exists_def cell_read_def read_csv_def path_exists_def)
  then have grown: "opened (snd (load ?parse ?p ?w1)) \<noteq> opened ?w1"
    by simp
  from load_checks_existence [of ?w0 ?p ?parse] missing
  have a: "load ?parse ?p ?w0 = (Inl (AssertionError ''The data file does not exist!''), ?w0)"
    by blast
  from load_checks_existence [of ?w1 ?p ?parse] grown
  have b: "path_exists ?w1 ?p"
    by blast
  from load_checks_existence [of ?w1 ?p ?parse] b
  have c: "load ?parse ?p ?w1 = read_csv ?parse ?p ?w1"
    by blast
  from a loaded log b c show ?thesis
    by blast
qed

section \<open>Properties of group by\<close>

subsection \<open>The group keys\<close>

lemma uniques_set: "set (uniques seen ks) = set seen \<union> {k. Some k \<in> set ks}"
  by (induction seen ks rule: uniques.induct) auto

lemma uniques_distinct: "distinct seen \<Longrightarrow> distinct (uniques seen ks)"
  by (induction seen ks rule: uniques.induct) auto

lemma group_keys_set: "set (group_keys ks) = {k. Some k \<in> set ks}"
  by (simp add: group_keys_def uniques_set)

lemma group_keys_distinct: "distinct (group_keys ks)"
  by (simp add: group_keys_def uniques_distinct)

lemma group_keys_sorted: "sorted (group_keys ks)"
  by (simp add: group_keys_def)

lemma group_keys_length: "length (group_keys ks) = card {k. Some k \<in> set ks}"
  using distinct_card [OF group_keys_distinct, of ks] by (simp add: group_keys_set)

lemma group_keys_two:
  assumes "{k. Some k \<in> set ks} = {a, b}" and "a < b"
  shows "group_keys ks = [a, b]"
proof (rule sorted_distinct_set_unique)
  show "sorted (group_keys ks)" by (rule group_keys_sorted)
  show "distinct (group_keys ks)" by (rule group_keys_distinct)
  show "sorted [a, b]" using assms(2) by simp
  show "distinct [a, b]" using assms(2) by simp
  show "set (group_keys ks) = set [a, b]" using assms(1) by (simp add: group_keys_set)
qed

lemma aggregate_keys: "map fst (aggregate f ks vs) = group_keys ks"
  by (simp add: aggregate_def comp_def)

lemma aggregate_values:
  "map snd (aggregate f ks vs) = map (\<lambda>k. f (get_group ks vs k)) (map fst (aggregate f ks vs))"
  by (simp add: aggregate_def comp_def)

text \<open>
  C1.  Grouping a frame by a column of categories (strings) and taking the mean of a
  numeric column gives exactly one row per distinct category value present in the key
  column: the row keys are distinct, they are in sorted order, they are exactly the values
  that occur, and their number is the number of distinct values; each row holds the mean of
  its group.  In particular, when two categories \<open>a < b\<close> are observed the result has the
  two rows \<open>a\<close>, \<open>b\<close>.
\<close>

theorem groupby_mean_one_row_per_category:
  assumes key: "getitem df key = Inr (Object ks)"
      and val: "getitem df val = Inr (Numeric vs)"
  shows "\<exists>rows. df_groupby_aggregate series_mean df key val = Inr (StrIndexed rows)
           \<and> distinct (map fst rows)
           \<and> sorted (map fst rows)
           \<and> set (map fst rows) = {k. Some k \<in> set ks}
           \<and> length rows = card {k. Some k \<in> set ks}
           \<and> map snd rows = map (\<lambda>k. series_mean (get_group ks vs k)) (map fst rows)
           \<and> (\<forall>a b. {k. Some k \<in> set ks} = {a, b} \<and> a < b \<longrightarrow> map fst rows = [a, b])"
proof (intro exI conjI allI impI)
  let ?rows = "aggregate series_mean ks vs"
  show "df_groupby_aggregate series_mean df key val = Inr (StrIndexed ?rows)"
    using key val by (simp add: df_groupby_aggregate_def)
  show "distinct (map fst ?rows)"
    by (simp only: aggregate_keys group_keys_distinct)
  show "sorted (map fst ?rows)"
    by (simp only: aggregate_keys group_keys_sorted)
  show "set (map fst ?rows) = {k. Some k \<in> set ks}"
    by (simp only: aggregate_keys group_keys_set)
  show "length ?rows = card {k. Some k \<in> set ks}"
    using group_keys_length [of ks] aggregate_keys [of series_mean ks vs]
    by (metis length_map)
  show "map snd ?rows = map (\<lambda>k. series_mean (get_group ks vs k)) (map fst ?rows)"
    by (rule aggregate_values)
  show "map fst ?rows = [a, b]" if "{k. Some k \<in> set ks} = {a, b} \<and> a < b" for a b
    using that by (simp only: aggregate_keys group_keys_two)
qed

lemma titanic_head_sex: "getitem titanic_head ''Sex'' = Inr (Object [Some ''male'', Some ''female'', Some ''female''])"
  by (simp add: getitem_def titanic_head_def)

lemma titanic_head_age: "getitem titanic_head ''Age'' = Inr (Numeric [Some 22, Some 38, Some 26])"
  by (simp add: getitem_def titanic_head_def)

theorem groupby_mean_one_row_per_category_witness:
  "\<exists>rows. df_groupby_aggregate series_mean titanic_head ''Sex'' ''Age'' = Inr (StrIndexed rows)
      \<and> map fst rows = [''female'', ''male''] \<and> length rows = 2"
proof -
  let ?ks = "[Some ''male'', Some ''female'', Some ''female'']"
  have K: "{k. Some k \<in> set ?ks} = {''female'', ''male''}" by auto
  have lt: "''female'' < ''male''" by simp
  from groupby_mean_one_row_per_category [OF titanic_head_sex titanic_head_age]
  obtain rows where
    run: "df_groupby_aggregate series_mean titanic_head ''Sex'' ''Age'' = Inr (StrIndexed rows)" and
    two: "\<forall>a b. {k. Some k \<in> set ?ks} = {a, b} \<and> a < b \<longrightarrow> map fst rows = [a, b]"
    by (elim exE conjE)
  from two [rule_format, of "''female''" "''male''"] K lt
  have keys: "map fst rows = [''female'', ''male'']" by (simp only: simp_thms)
  then have "length (map fst rows) = 2" by simp
  then have len: "length rows = 2" by simp
  show ?thesis
    by (rule exI [of _ rows]) (simp only: run keys len simp_thms)
qed

subsection \<open>The built-in mean and the explicit quotient\<close>

lemma present_Some: "present (map (\<lambda>v. Some (g v)) vs) = map g vs"
  by (induction vs) simp_all

lemma kahan_exact:
  assumes ex: "exact_on_integers ops"
  shows "\<bar>S\<bar> + sum_list (map abs vs) \<le> 2 ^ 53 \<Longrightarrow>
         kahan_sum ops (of_int64 ops S) (of_int64 ops 0) (map (of_int64 ops) vs)
           = of_int64 ops (S + sum_list vs)"
proof (induction vs arbitrary: S)
  case Nil
  then show ?case by simp
next
  case (Cons v vs)
  have nonneg: "0 \<le> sum_list (map abs vs)"
    by (rule sum_list_nonneg) auto
  from Cons.prems nonneg have bS: "\<bar>S\<bar> \<le> 2 ^ 53" and bv: "\<bar>v\<bar> \<le> 2 ^ 53"
    and bSv: "\<bar>S + v\<bar> \<le> 2 ^ 53" and rest: "\<bar>S + v\<bar> + sum_list (map abs vs) \<le> 2 ^ 53"
    by simp_all
  have b0: "\<bar>0::int\<bar> \<le> 2 ^ 53" by simp
  from ex have add: "\<And>a b. \<bar>a\<bar> \<le> 2 ^ 53 \<Longrightarrow> \<bar>b\<bar> \<le> 2 ^ 53 \<Longrightarrow> \<bar>a + b\<bar> \<le> 2 ^ 53 \<Longrightarrow>
        f_add ops (of_int64 ops a) (of_int64 ops b) = of_int64 ops (a + b)"
    and sub: "\<And>a b. \<bar>a\<bar> \<le> 2 ^ 53 \<Longrightarrow> \<bar>b\<bar> \<le> 2 ^ 53 \<Longrightarrow> \<bar>a - b\<bar> \<le> 2 ^ 53 \<Longrightarrow>
        f_sub ops (of_int64 ops a) (of_int64 ops b) = of_int64 ops (a - b)"
    and nan: "\<And>a. \<not> f_isnan ops (of_int64 ops a)"
    by (simp_all add: exact_on_integers_def)
  have y: "f_sub ops (of_int64 ops v) (of_int64 ops 0) = of_int64 ops v"
    using sub [OF bv b0] bv by simp
  have t: "f_add ops (of_int64 ops S) (of_int64 ops v) = of_int64 ops (S + v)"
    using add [OF bS bv bSv] .
  have d: "f_sub ops (of_int64 ops (S + v)) (of_int64 ops S) = of_int64 ops v"
    using sub [OF bSv bS] bv by simp
  have c: "f_sub ops (of_int64 ops v) (of_int64 ops v) = of_int64 ops 0"
    using sub [OF bv bv] by simp
  have "kahan_sum ops (of_int64 ops S) (of_int64 ops 0) (map (of_int64 ops) (v # vs))
          = kahan_sum ops (of_int64 ops (S + v)) (of_int64 ops 0) (map (of_int64 ops) vs)"
    by (simp add: Let_def y t d c nan)
  also have "\<dots> = of_int64 ops ((S + v) + sum_list vs)"
    by (rule Cons.IH [OF rest])
  finally show ?case by (simp add: add.assoc)
qed

lemma wrap64_small: "\<bar>x\<bar> \<le> 2 ^ 53 \<Longrightarrow> wrap64 x = x"
  by (simp add: wrap64_def)

lemma select_rows_Cons:
  "select_rows (b # msk) (x # xs) = (if b then x # select_rows msk xs else select_rows msk xs)"
  by (simp add: select_rows_def)

lemma select_rows_Nil: "select_rows msk [] = []" "select_rows [] xs = []"
  by (simp_all add: select_rows_def)

lemma sum_abs_select_rows:
  fixes vs :: "int list"
  shows "sum_list (map abs (select_rows msk vs)) \<le> sum_list (map abs vs)"
proof (induction msk arbitrary: vs)
  case Nil
  have "0 \<le> sum_list (map abs vs)" by (rule sum_list_nonneg) auto
  then show ?case by (simp add: select_rows_Nil)
next
  case (Cons b msk)
  show ?case
  proof (cases vs)
    case Nil
    then show ?thesis by (simp add: select_rows_Nil)
  next
    case (Cons v vs')
    have "sum_list (map abs (select_rows msk vs')) \<le> \<bar>v\<bar> + sum_list (map abs vs')"
      using Cons.IH [of vs'] by simp
    with Cons.IH [of vs'] Cons show ?thesis by (simp add: select_rows_Cons)
  qed
qed

lemma group_not_empty:
  "Some k \<in> set ks \<Longrightarrow> length ks = length vs
     \<Longrightarrow> select_rows (map (\<lambda>k'. k' = Some k) ks) vs \<noteq> []"
proof (induction ks arbitrary: vs)
  case Nil
  then show ?case by simp
next
  case (Cons a ks)
  then obtain v vs' where vs: "vs = v # vs'" by (cases vs) auto
  with Cons show ?case by (auto simp: select_rows_Cons)
qed

lemma mean_of_small_integers:
  assumes ex: "exact_on_integers ops"
      and ne: "grp \<noteq> []"
      and small: "sum_list (map abs grp) \<le> 2 ^ 53"
  shows "builtin_mean ops (Int64 grp) = sum_over_len ops (Int64 grp)"
proof -
  have pr: "present (map (\<lambda>v. Some (of_int64 ops v)) grp) = map (of_int64 ops) grp"
    by (rule present_Some)
  from small have "\<bar>0::int\<bar> + sum_list (map abs grp) \<le> 2 ^ 53" by simp
  from kahan_exact [OF ex this]
  have k: "kahan_sum ops (of_int64 ops 0) (of_int64 ops 0) (map (of_int64 ops) grp)
             = of_int64 ops (sum_list grp)"
    by simp
  have "\<bar>sum_list grp\<bar> \<le> sum_list (map abs grp)" by (rule sum_list_abs)
  with small have "\<bar>sum_list grp\<bar> \<le> 2 ^ 53" by simp
  then have w: "wrap64 (sum_list grp) = sum_list grp" by (rule wrap64_small)
  show ?thesis
    by (simp add: builtin_mean_def sum_over_len_def group_mean_def Let_def pr k w ne)
qed

text \<open>
  C10, as amended.  When the \<open>Survived\<close> column is a column of 64-bit integers (which has
  no missing value) with one entry per row of the \<open>Sex\<close> column, and the absolute values
  of its entries sum to at most \<open>2 ^ 53\<close>, then
  \<^verbatim>\<open>df.groupby("Sex")["Survived"].mean()\<close> and
  \<^verbatim>\<open>df.groupby("Sex")["Survived"].aggregate(lambda grp: grp.sum() / len(grp))\<close>
  return the same keys with the same values, for every floating-point arithmetic that is
  exact on integers of magnitude at most \<open>2 ^ 53\<close>.
\<close>

theorem mean_equals_sum_over_len:
  assumes ex: "exact_on_integers ops"
      and len: "length sex = length vs"
      and small: "sum_list (map abs vs) \<le> 2 ^ 53"
  shows "survived_mean ops sex (Int64 vs) = survived_sum_over_len ops sex (Int64 vs)"
proof -
  have "builtin_mean ops (select_numbers (map (\<lambda>k'. k' = Some k) sex) (Int64 vs))
          = sum_over_len ops (select_numbers (map (\<lambda>k'. k' = Some k) sex) (Int64 vs))"
    if k: "k \<in> set (group_keys sex)" for k
  proof -
    let ?grp = "select_rows (map (\<lambda>k'. k' = Some k) sex) vs"
    from k have "Some k \<in> set sex" by (simp add: group_keys_set)
    then have ne: "?grp \<noteq> []" using len by (rule group_not_empty)
    have "sum_list (map abs ?grp) \<le> sum_list (map abs vs)" by (rule sum_abs_select_rows)
    with small have "sum_list (map abs ?grp) \<le> 2 ^ 53" by simp
    from mean_of_small_integers [OF ex ne this] show ?thesis
      by (simp add: select_numbers_def)
  qed
  then show ?thesis
    by (simp add: survived_mean_def survived_sum_over_len_def reduce_by_key_def)
qed

lemma exact_ops_exact: "exact_on_integers exact_ops"
  by (simp add: exact_on_integers_def exact_ops_def)

theorem mean_equals_sum_over_len_witness:
  "exact_on_integers exact_ops
   \<and> survived_mean exact_ops [Some ''male'', Some ''female'', Some ''female''] (Int64 [0, 1, 1])
       = survived_sum_over_len exact_ops [Some ''male'', Some ''female'', Some ''female'']
           (Int64 [0, 1, 1])
   \<and> survived_sum_over_len exact_ops [Some ''male'', Some ''female'', Some ''female'']
           (Int64 [0, 1, 1])
       = [(''female'', Some 1), (''male'', Some 0)]"
proof (intro conjI)
  let ?sex = "[Some ''male'', Some ''female'', Some ''female'']"
  let ?vs = "[0, 1, 1] :: int list"
  show "exact_on_integers exact_ops" by (rule exact_ops_exact)
  have len: "length ?sex = length ?vs" by simp
  have small: "sum_list (map abs ?vs) \<le> 2 ^ 53" by simp
  show "survived_mean exact_ops ?sex (Int64 ?vs) = survived_sum_over_len exact_ops ?sex (Int64 ?vs)"
    by (rule mean_equals_sum_over_len [OF exact_ops_exact len small])
  show "survived_sum_over_len exact_ops ?sex (Int64 ?vs) = [(''female'', Some 1), (''male'', Some 0)]"
    by (simp add: survived_sum_over_len_def reduce_by_key_def group_keys_def select_numbers_def
          select_rows_def sum_over_len_def exact_ops_def wrap64_def)
qed

text \<open>
  The two differ on a group with a missing value, where the mean divides the sum of the
  present values by their number and the explicit reduction divides it by the length of the
  group; and on a column of integers whose sum leaves the 64-bit range, where the explicit
  reduction's integer sum wraps and the mean's floating-point sum does not.
\<close>

theorem mean_differs_from_sum_over_len:
  "survived_mean exact_ops [Some ''male'', Some ''male''] (Float64 [Some 1, None])
     = [(''male'', Some 1)]
   \<and> survived_sum_over_len exact_ops [Some ''male'', Some ''male''] (Float64 [Some 1, None])
     = [(''male'', Some (1 / 2))]
   \<and> survived_mean exact_ops [Some ''male'', Some ''male''] (Int64 [2 ^ 62, 2 ^ 62])
     = [(''male'', Some (2 ^ 62))]
   \<and> survived_sum_over_len exact_ops [Some ''male'', Some ''male''] (Int64 [2 ^ 62, 2 ^ 62])
     = [(''male'', Some (- (2 ^ 62)))]"
  by (simp add: survived_mean_def survived_sum_over_len_def reduce_by_key_def group_keys_def
        select_numbers_def select_rows_def builtin_mean_def group_mean_def sum_over_len_def
        exact_ops_def wrap64_def Let_def)

section \<open>Properties of the cells that filter, aggregate and reproject\<close>

lemma new_object_unchanged:
  "wf_session s \<Longrightarrow> new_object v s = (r, s') \<Longrightarrow>
     unchanged s s' \<and> heap s r = None \<and> heap s' r = Some v \<and> names s' = names s \<and> wf_session s'"
  unfolding wf_session_def new_object_def unchanged_def
  by (auto simp: less_Suc_eq)

lemma unchanged_lookup:
  "unchanged s s' \<Longrightarrow> names s' name = names s name \<Longrightarrow> lookup s name = Inr v
     \<Longrightarrow> lookup s' name = Inr v"
  by (auto simp: unchanged_def lookup_def split: option.splits)

lemma cell_filter_frame:
  assumes wf: "wf_session s" and run: "cell_filter s = Inr (out, s')"
  shows "unchanged s s' \<and> heap s out = None \<and> lookup s' ''df'' = lookup s ''df''
         \<and> (\<exists>df fare msk res. lookup s ''df'' = Inr (DataFrame df)
               \<and> getitem df ''Fare'' = Inr fare \<and> series_gt fare 50 = Inr msk
               \<and> getitem_mask df msk = Inr res \<and> heap s' out = Some (DataFrame res))"
proof -
  from run obtain df where df: "lookup s ''df'' = Inr (DataFrame df)"
    by (auto simp: cell_filter_def split: sum.splits pyobj.splits)
  from run df obtain fare where fare: "getitem df ''Fare'' = Inr fare"
    by (auto simp: cell_filter_def split: sum.splits)
  from run df fare obtain msk where msk: "series_gt fare 50 = Inr msk"
    by (auto simp: cell_filter_def split: sum.splits)
  obtain r s1 where s1: "new_object (BoolSeries msk) s = (r, s1)"
    by (cases "new_object (BoolSeries msk) s")
  from run df fare msk s1 obtain res where
    res: "getitem_mask df msk = Inr res" and
    fin: "new_object (DataFrame res) (assign ''mask'' r s1) = (out, s')"
    by (auto simp: cell_filter_def split: sum.splits)
  from new_object_unchanged [OF wf s1]
  have u1: "unchanged s s1" and n1: "names s1 = names s" and wf1: "wf_session s1" and
    fr1: "heap s r = None"
    by simp_all
  let ?s2 = "assign ''mask'' r s1"
  have wf2: "wf_session ?s2"
    using wf1 by (simp add: wf_session_def assign_def)
  from new_object_unchanged [OF wf2 fin]
  have u2: "unchanged ?s2 s'" and fr2: "heap ?s2 out = None" and
    got: "heap s' out = Some (DataFrame res)" and n2: "names s' = names ?s2"
    by simp_all
  have u: "unchanged s s'"
    using u1 u2 by (simp add: unchanged_def assign_def)
  have fresh: "heap s out = None"
  proof (cases "heap s out")
    case None then show ?thesis .
  next
    case (Some v)
    with u1 have "heap s1 out = Some v" by (simp add: unchanged_def)
    with fr2 show ?thesis by (simp add: assign_def)
  qed
  have nm: "names s' ''df'' = names s ''df''"
    using n2 n1 by (simp add: assign_def)
  have "lookup s' ''df'' = Inr (DataFrame df)"
    using unchanged_lookup [OF u nm df] .
  with df u fresh fare msk res got show ?thesis by auto
qed

lemma cell_aggregate_frame:
  assumes wf: "wf_session s" and run: "cell_aggregate s = Inr (out, s')"
  shows "unchanged s s' \<and> heap s out = None \<and> lookup s' ''df'' = lookup s ''df''
         \<and> (\<exists>df res. lookup s ''df'' = Inr (DataFrame df)
               \<and> survival_by_sex df = Inr res \<and> heap s' out = Some (Series res))"
proof -
  from run obtain df where df: "lookup s ''df'' = Inr (DataFrame df)"
    by (auto simp: cell_aggregate_def split: sum.splits pyobj.splits)
  from run df obtain res where
    res: "survival_by_sex df = Inr res" and
    fin: "new_object (Series res) s = (out, s')"
    by (auto simp: cell_aggregate_def split: sum.splits)
  from new_object_unchanged [OF wf fin]
  have u: "unchanged s s'" and fresh: "heap s out = None" and
    got: "heap s' out = Some (Series res)" and nm: "names s' = names s"
    by simp_all
  have "lookup s' ''df'' = Inr (DataFrame df)"
    using unchanged_lookup [OF u _ df] nm by simp
  with df u fresh res got show ?thesis by auto
qed

lemma cell_reproject_frame:
  assumes wf: "wf_session s" and run: "cell_reproject transformer s = Inr (out, s')"
  shows "unchanged s s' \<and> heap s out = None
         \<and> lookup s' ''gdf_paris_districts'' = lookup s ''gdf_paris_districts''
         \<and> names s' ''gdf_paris_districts_mercator'' = Some out
         \<and> (\<exists>gdf res. lookup s ''gdf_paris_districts'' = Inr (GeoDataFrame gdf)
               \<and> to_crs transformer gdf 3857 = Inr res \<and> heap s' out = Some (GeoDataFrame res))"
proof -
  from run obtain gdf where gdf: "lookup s ''gdf_paris_districts'' = Inr (GeoDataFrame gdf)"
    by (auto simp: cell_reproject_def split: sum.splits pyobj.splits)
  from run gdf obtain res where res: "to_crs transformer gdf 3857 = Inr res"
    by (auto simp: cell_reproject_def split: sum.splits)
  obtain r s1 where s1: "new_object (GeoDataFrame res) s = (r, s1)"
    by (cases "new_object (GeoDataFrame res) s")
  from run gdf res s1 have out: "out = r" and
    fin: "s' = assign ''gdf_paris_districts_mercator'' r s1"
    by (auto simp: cell_reproject_def)
  from new_object_unchanged [OF wf s1]
  have u1: "unchanged s s1" and fresh: "heap s r = None" and
    got: "heap s1 r = Some (GeoDataFrame res)" and n1: "names s1 = names s"
    by simp_all
  have u: "unchanged s s'"
    using u1 fin by (simp add: unchanged_def assign_def)
  have nm: "names s' ''gdf_paris_districts'' = names s ''gdf_paris_districts''"
    using fin n1 by (simp add: assign_def)
  have same: "lookup s' ''gdf_paris_districts'' = Inr (GeoDataFrame gdf)"
    using unchanged_lookup [OF u nm gdf] .
  have bound: "names s' ''gdf_paris_districts_mercator'' = Some out"
    using fin out by (simp add: assign_def)
  have "heap s' out = Some (GeoDataFrame res)"
    using fin out got by (simp add: assign_def)
  with gdf u fresh out same bound res show ?thesis by auto
qed

text \<open>
  C9, as amended.  The filter \<^verbatim>\<open>df[mask]\<close>, the aggregation
  \<^verbatim>\<open>df.groupby("Sex")["Survived"].mean()\<close> and the reprojection
  \<^verbatim>\<open>gdf_paris_districts.to_crs(epsg=3857)\<close> do not change their input frame.  In a
  well-formed session, whenever one of these cells succeeds, every object that existed
  before is unchanged, the result is an object that did not exist before, the name of the
  input still refers to the same content, and the transformed content is held by the new
  object (which the reprojection cell binds to the new name
  \<open>gdf_paris_districts_mercator\<close>).
\<close>

theorem operations_return_new_objects:
  assumes "wf_session s"
  shows "(\<forall>out s'. cell_filter s = Inr (out, s') \<longrightarrow>
            unchanged s s' \<and> heap s out = None \<and> lookup s' ''df'' = lookup s ''df''
            \<and> (\<exists>df fare msk res. lookup s ''df'' = Inr (DataFrame df)
                  \<and> getitem df ''Fare'' = Inr fare \<and> series_gt fare 50 = Inr msk
                  \<and> getitem_mask df msk = Inr res \<and> heap s' out = Some (DataFrame res)))
       \<and> (\<forall>out s'. cell_aggregate s = Inr (out, s') \<longrightarrow>
            unchanged s s' \<and> heap s out = None \<and> lookup s' ''df'' = lookup s ''df''
            \<and> (\<exists>df res. lookup s ''df'' = Inr (DataFrame df)
                  \<and> survival_by_sex df = Inr res \<and> heap s' out = Some (Series res)))
       \<and> (\<forall>out s'. cell_reproject transformer s = Inr (out, s') \<longrightarrow>
            unchanged s s' \<and> heap s out = None
            \<and> lookup s' ''gdf_paris_districts'' = lookup s ''gdf_paris_districts''
            \<and> names s' ''gdf_paris_districts_mercator'' = Some out
            \<and> (\<exists>gdf res. lookup s ''gdf_paris_districts'' = Inr (GeoDataFrame gdf)
                  \<and> to_crs transformer gdf 3857 = Inr res
                  \<and> heap s' out = Some (GeoDataFrame res)))"
proof (intro conjI allI impI)
  fix out s'
  assume "cell_filter s = Inr (out, s')"
  from cell_filter_frame [OF assms this]
  show "unchanged s s'" and "heap s out = None" and "lookup s' ''df'' = lookup s ''df''"
    and "\<exists>df fare msk res. lookup s ''df'' = Inr (DataFrame df)
                  \<and> getitem df ''Fare'' = Inr fare \<and> series_gt fare 50 = Inr msk
                  \<and> getitem_mask df msk = Inr res \<and> heap s' out = Some (DataFrame res)"
    by (simp_all only: simp_thms)
next
  fix out s'
  assume "cell_aggregate s = Inr (out, s')"
  from cell_aggregate_frame [OF assms this]
  show "unchanged s s'" and "heap s out = None" and "lookup s' ''df'' = lookup s ''df''"
    and "\<exists>df res. lookup s ''df'' = Inr (DataFrame df)
                  \<and> survival_by_sex df = Inr res \<and> heap s' out = Some (Series res)"
    by (simp_all only: simp_thms)
next
  fix out s'
  assume "cell_reproject transformer s = Inr (out, s')"
  from cell_reproject_frame [OF assms this]
  show "unchanged s s'" and "heap s out = None"
    and "lookup s' ''gdf_paris_districts'' = lookup s ''gdf_paris_districts''"
    and "names s' ''gdf_paris_districts_mercator'' = Some out"
    and "\<exists>gdf res. lookup s ''gdf_paris_districts'' = Inr (GeoDataFrame gdf)
                  \<and> to_crs transformer gdf 3857 = Inr res
                  \<and> heap s' out = Some (GeoDataFrame res)"
    by (simp_all only: simp_thms)
qed

lemma session0_wf: "wf_session session0"
  by (simp add: wf_session_def session0_def)

lemma session0_df: "lookup session0 ''df'' = Inr (DataFrame titanic_head)"
  by (simp add: lookup_def session0_def)

lemma session0_filter: "cell_filter session0 = Inr (3, session0_filtered)"
  by (simp add: cell_filter_def session0_def lookup_def titanic_head_def getitem_def series_gt_def
        new_object_def assign_def getitem_mask_def select_rows_def select_column_def
        session0_filtered_def titanic_fare_over_50_def eval_nat_numeral)

text \<open>
  After the filter cell has run on the three-row table, \<open>df\<close> still refers to all three
  rows; the one row with a fare above 50 is a different object.
\<close>

theorem filter_in_place_counterexample:
  "cell_filter session0 = Inr (3, session0_filtered)
   \<and> lookup session0_filtered ''df'' = Inr (DataFrame titanic_head)
   \<and> heap session0_filtered 3 = Some (DataFrame titanic_fare_over_50)
   \<and> titanic_head \<noteq> titanic_fare_over_50"
proof (intro conjI)
  show "cell_filter session0 = Inr (3, session0_filtered)"
    by (rule session0_filter)
  show "lookup session0_filtered ''df'' = Inr (DataFrame titanic_head)"
    by (simp add: lookup_def session0_filtered_def)
  show "heap session0_filtered 3 = Some (DataFrame titanic_fare_over_50)"
    by (simp add: session0_filtered_def)
  show "titanic_head \<noteq> titanic_fare_over_50"
    by (simp add: titanic_head_def titanic_fare_over_50_def)
qed

lemma titanic_head_survival:
  "survival_by_sex titanic_head = Inr (StrIndexed [(''female'', Some 1), (''male'', Some 0)])"
  by (simp add: survival_by_sex_def df_groupby_aggregate_def getitem_def titanic_head_def
        aggregate_def group_keys_def get_group_def select_rows_def series_mean_def
        series_count_def series_sum_def)

lemma session0_aggregate: "\<exists>out s'. cell_aggregate session0 = Inr (out, s')"
  by (simp add: cell_aggregate_def session0_df titanic_head_survival new_object_def)

lemma session0_gdf: "lookup session0 ''gdf_paris_districts'' = Inr (GeoDataFrame paris_district)"
  by (simp add: lookup_def session0_def)

lemma session0_reproject: "\<exists>out s'. cell_reproject doubling session0 = Inr (out, s')"
  by (simp add: cell_reproject_def session0_gdf to_crs_def paris_district_def new_object_def)

theorem operations_return_new_objects_witness:
  "wf_session session0
   \<and> (\<exists>out s'. cell_filter session0 = Inr (out, s')
         \<and> lookup s' ''df'' = Inr (DataFrame titanic_head) \<and> heap session0 out = None)
   \<and> (\<exists>out s'. cell_aggregate session0 = Inr (out, s')
         \<and> lookup s' ''df'' = Inr (DataFrame titanic_head) \<and> heap session0 out = None)
   \<and> (\<exists>out s'. cell_reproject doubling session0 = Inr (out, s')
         \<and> lookup s' ''gdf_paris_districts'' = Inr (GeoDataFrame paris_district)
         \<and> heap session0 out = None)"
proof (intro conjI)
  note frame = operations_return_new_objects [OF session0_wf, of doubling]
  show "wf_session session0" by (rule session0_wf)
  show "\<exists>out s'. cell_filter session0 = Inr (out, s')
         \<and> lookup s' ''df'' = Inr (DataFrame titanic_head) \<and> heap session0 out = None"
  proof -
    from frame session0_filter
    have "lookup session0_filtered ''df'' = lookup session0 ''df'' \<and> heap session0 3 = None"
      by (simp only: simp_thms)
    with session0_filter session0_df show ?thesis
      by (intro exI [of _ 3] exI [of _ session0_filtered]) (simp only: simp_thms)
  qed
  show "\<exists>out s'. cell_aggregate session0 = Inr (out, s')
         \<and> lookup s' ''df'' = Inr (DataFrame titanic_head) \<and> heap session0 out = None"
  proof -
    from session0_aggregate obtain out s' where run: "cell_aggregate session0 = Inr (out, s')"
      by (elim exE)
    from frame run
    have "lookup s' ''df'' = lookup session0 ''df'' \<and> heap session0 out = None"
      by (simp only: simp_thms)
    with run session0_df show ?thesis
      by (intro exI [of _ out] exI [of _ s']) (simp only: simp_thms)
  qed
  show "\<exists>out s'. cell_reproject doubling session0 = Inr (out, s')
         \<and> lookup s' ''gdf_paris_districts'' = Inr (GeoDataFrame paris_district)
         \<and> heap session0 out = None"
  proof -
    from session0_reproject obtain out s' where
      run: "cell_reproject doubling session0 = Inr (out, s')"
      by (elim exE)
    from frame run
    have "lookup s' ''gdf_paris_districts'' = lookup session0 ''gdf_paris_districts''
          \<and> heap session0 out = None"
      by (simp only: simp_thms)
    with run session0_gdf show ?thesis
      by (intro exI [of _ out] exI [of _ s']) (simp only: simp_thms)
  qed
qed

section \<open>Properties of resampling\<close>

text \<open>
  C5.  For every raster of height \<open>h\<close> and width \<open>w\<close> and every positive integer factor
  \<open>F\<close>, the resampling cell returns an array of shape \<open>(h div F, w div F)\<close>, the floor of
  the quotients, given that the library's \<open>read\<close> returns an array of the shape it is
  asked for.
\<close>

theorem resample_out_shape:
  assumes "0 < resampling_factor"
      and "\<And>out_shape. shape (read src 1 out_shape bilinear) = out_shape"
  shows "\<exists>a. resample read resampling_factor src = Inr a
           \<and> shape a = (ds_height src div resampling_factor, ds_width src div resampling_factor)
           \<and> fst (shape a) = \<lfloor>(of_int (ds_height src) :: rat) / of_int resampling_factor\<rfloor>
           \<and> snd (shape a) = \<lfloor>(of_int (ds_width src) :: rat) / of_int resampling_factor\<rfloor>"
  using assms by (simp add: resample_def py_floordiv_def floor_divide_of_int_eq)

theorem resample_out_shape_witness:
  "\<exists>a. resample (\<lambda>src band out_shape policy. \<lparr>shape = out_shape, elems = []\<rparr>) 32
          \<lparr>ds_count = 1, ds_height = 100, ds_width = 70\<rparr> = Inr a
      \<and> shape a = (3, 2)"
proof -
  let ?read = "\<lambda>(src :: dataset_reader) (band :: int) out_shape (policy :: Resampling).
                 \<lparr>shape = out_shape, elems = []\<rparr>"
  let ?src = "\<lparr>ds_count = 1, ds_height = 100, ds_width = 70\<rparr>"
  have pos: "(0 :: int) < 32" by simp
  have contract: "\<And>out_shape. shape (?read ?src 1 out_shape bilinear) = out_shape" by simp
  from resample_out_shape [of 32 ?read ?src, OF pos contract]
  obtain a where "resample ?read 32 ?src = Inr a"
    and "shape a = (ds_height ?src div 32, ds_width ?src div 32)"
    by (elim exE conjE)
  then show ?thesis by simp
qed

text \<open>
  C8.  For every raster and every upscale factor, the array returned by the resampling cell
  declares the same CRS as its input, given that the library's \<open>reproject\<close> declares on
  its result the destination CRS it is given.
\<close>

theorem resample_ds_keeps_crs:
  assumes "\<And>dst_crs dst_shape. rio_crs (reproject ds dst_crs dst_shape bilinear) = dst_crs"
  shows "rio_crs (resample_ds reproject upscale_factor ds) = rio_crs ds"
  using assms by (simp add: resample_ds_def Let_def)

theorem resample_ds_keeps_crs_witness:
  "rio_crs (resample_ds
       (\<lambda>ds dst_crs dst_shape policy.
           \<lparr>rio_crs = dst_crs, rio_height = fst dst_shape, rio_width = snd dst_shape,
            da_values = []\<rparr>)
       2 \<lparr>rio_crs = ''EPSG:4326'', rio_height = 3, rio_width = 4, da_values = []\<rparr>)
     = ''EPSG:4326''"
proof -
  let ?reproject = "\<lambda>(ds :: string data_array) dst_crs dst_shape (policy :: Resampling).
           \<lparr>rio_crs = dst_crs, rio_height = fst dst_shape, rio_width = snd dst_shape,
            da_values = ([] :: rat list)\<rparr>"
  let ?ds = "\<lparr>rio_crs = ''EPSG:4326'', rio_height = 3, rio_width = 4, da_values = []\<rparr>"
  have contract:
    "\<And>dst_crs dst_shape. rio_crs (?reproject ?ds dst_crs dst_shape bilinear) = dst_crs"
    by simp
  from resample_ds_keeps_crs [of ?reproject ?ds 2, OF contract]
  show ?thesis by simp
qed

end
